theory Spec2Isabelle
  imports Complex_Main
begin

section \<open>Python values used by vtipy2\<close>

text \<open>
  Python floats are modelled as real numbers and Python integers as \<open>int\<close>. Every
  exception that the modelled code can raise is a value of \<open>py_error\<close>; a function that
  can raise returns \<open>py_error + 'a\<close> with \<open>Inl\<close> for the exception.
\<close>

datatype py_error =
    ZeroDivisionError
  | ValueError
  | OverflowError
  | IndexError
  | DeviceError

text \<open>\<open>int(x)\<close> of a float: truncation towards zero.\<close>

definition py_int :: "real \<Rightarrow> int" where
  "py_int x = (if 0 \<le> x then \<lfloor>x\<rfloor> else \<lceil>x\<rceil>)"

text \<open>\<open>round(x, 2)\<close>: the nearest multiple of 1/100, a tie going to the even one.\<close>

definition py_round2 :: "real \<Rightarrow> real" where
  "py_round2 x =
     (let y = x * 100; f = \<lfloor>y\<rfloor>; d = y - of_int f
      in (if d < 1 / 2 then of_int f
          else if 1 / 2 < d then of_int (f + 1)
          else if even f then of_int f
          else of_int (f + 1)) / 100)"

text \<open>
  \<open>s.lower()\<close> on the ASCII letters. No other character becomes \<open>y\<close> or \<open>n\<close> in
  lower case, and only these two answers are told apart.
\<close>

definition py_lower :: "string \<Rightarrow> string" where
  "py_lower s =
     map (\<lambda>c. if 65 \<le> (of_char c :: nat) \<and> (of_char c :: nat) \<le> 90
              then char_of ((of_char c :: nat) + 32) else c) s"

text \<open>
  \<open>numpy.linspace(a, b, num = n)\<close> with the end point included, and
  \<open>numpy.logspace(a, b, num = n) = 10 ** linspace(a, b, n)\<close>. The last sample is
  overwritten with the end point when there are at least two samples, as numpy does.
\<close>

definition linspace :: "real \<Rightarrow> real \<Rightarrow> nat \<Rightarrow> real list" where
  "linspace a b n =
     (if n = 1 then [a]
      else (map (\<lambda>i. a + real i * ((b - a) / real (n - 1))) [0..<n])[n - 1 := b])"

definition logspace :: "real \<Rightarrow> real \<Rightarrow> nat \<Rightarrow> real list" where
  "logspace a b n = map (\<lambda>y. 10 powr y) (linspace a b n)"

section \<open>class Ramp\<close>

text \<open>
  The attributes of a \<open>Ramp\<close> instance after \<open>__init__\<close>. \<open>scan_at_first_T\<close> holds
  \<open>Some True\<close>, \<open>Some False\<close> or \<open>None\<close> as the constructor leaves it.
\<close>

record ramp =
  num :: int
  interval :: int
  start_temp :: real
  end_temp :: real
  rate :: real
  min_holdtime :: int
  voltage :: real
  fmin :: real
  fmax :: real
  ppd :: int
  num_sweeps_at_T :: int
  sweep_delay :: int
  scan_at_first_T :: "bool option"
  up :: bool
  num_intervals :: nat
  temps :: "real list"
  numpoints :: int
  frange :: "real list"

text \<open>The direction of the ramp, and the rate with the cooling cap of 15 degrees per minute.\<close>

definition ramp_up :: "real \<Rightarrow> real \<Rightarrow> bool" where
  "ramp_up start_t end_t = (start_t \<le> end_t)"

definition ramp_rate :: "bool \<Rightarrow> real \<Rightarrow> real" where
  "ramp_rate is_up r = (if \<not> is_up \<and> 15 < r then 15 else r)"

text \<open>\<open>abs(int((end_temp - start_temp) / interval))\<close>; the division raises for interval 0.\<close>

definition ramp_num_intervals :: "real \<Rightarrow> real \<Rightarrow> int \<Rightarrow> py_error + nat" where
  "ramp_num_intervals start_t end_t iv =
     (if iv = 0 then Inl ZeroDivisionError
      else Inr (nat \<bar>py_int ((end_t - start_t) / of_int iv)\<bar>))"

definition ramp_interval :: "bool \<Rightarrow> int \<Rightarrow> int" where
  "ramp_interval is_up iv = (if \<not> is_up then \<bar>iv\<bar> * (- 1) else iv)"

text \<open>The loop \<open>for i in range(num_intervals + 1): temps.append(round(start + i * interval, 2))\<close>.\<close>

definition ramp_all_temps :: "real \<Rightarrow> int \<Rightarrow> nat \<Rightarrow> real list" where
  "ramp_all_temps start_t iv n =
     map (\<lambda>i. py_round2 (start_t + of_int (int i * iv))) [0..<n + 1]"

text \<open>
  The \<open>y\<close>/\<open>n\<close> switch: \<open>n\<close> pops the first temperature from the one list \<open>temps\<close>.
  The list has \<open>num_intervals + 1\<close> elements, so \<open>pop(0)\<close> cannot raise here; the case
  of the empty list is written out all the same.
\<close>

definition ramp_scan :: "string \<Rightarrow> real list \<Rightarrow> py_error + (bool option \<times> real list)" where
  "ramp_scan s ts =
     (if s = ''y'' then Inr (Some True, ts)
      else if s = ''n'' then
        (case ts of [] \<Rightarrow> Inl IndexError | _ # rest \<Rightarrow> Inr (Some False, rest))
      else Inr (None, ts))"

text \<open>
  \<open>int(ppd * (log10(fmax) - log10(fmin)))\<close>. \<open>numpy.log10\<close> of a number that is not
  positive is an infinity or a NaN, and \<open>int\<close> of the result raises.
\<close>

definition ramp_numpoints :: "int \<Rightarrow> real \<Rightarrow> real \<Rightarrow> py_error + int" where
  "ramp_numpoints p f_lo f_hi =
     (if f_lo \<le> 0 \<or> f_hi \<le> 0 then Inl ValueError
      else Inr (py_int (of_int p * (log 10 f_hi - log 10 f_lo))))"

text \<open>
  \<open>list(numpy.logspace(log10(fmin), log10(fmax), num = numpoints)[::-1])\<close>;
  a negative number of samples raises.
\<close>

definition ramp_frange :: "real \<Rightarrow> real \<Rightarrow> int \<Rightarrow> py_error + real list" where
  "ramp_frange f_lo f_hi n =
     (if n < 0 then Inl ValueError
      else Inr (rev (logspace (log 10 f_lo) (log 10 f_hi) (nat n))))"

definition Ramp ::
  "int \<Rightarrow> real \<Rightarrow> real \<Rightarrow> real \<Rightarrow> int \<Rightarrow> int \<Rightarrow> real \<Rightarrow> real \<Rightarrow> real \<Rightarrow> int \<Rightarrow> int \<Rightarrow> int \<Rightarrow> string
     \<Rightarrow> py_error + ramp" where
  "Ramp n start_t end_t r iv holdtime v f_lo f_hi p sweeps delay scan =
     (let is_up = ramp_up start_t end_t in
      case ramp_num_intervals start_t end_t iv of
        Inl e \<Rightarrow> Inl e
      | Inr k \<Rightarrow>
          (let iv' = ramp_interval is_up iv in
           case ramp_scan scan (ramp_all_temps start_t iv' k) of
             Inl e \<Rightarrow> Inl e
           | Inr (flag, ts) \<Rightarrow>
               (case ramp_numpoints p f_lo f_hi of
                  Inl e \<Rightarrow> Inl e
                | Inr np \<Rightarrow>
                    (case ramp_frange f_lo f_hi np of
                       Inl e \<Rightarrow> Inl e
                     | Inr fr \<Rightarrow>
                         Inr \<lparr> num = n, interval = iv', start_temp = start_t,
                               end_temp = end_t, rate = ramp_rate is_up r,
                               min_holdtime = holdtime, voltage = v, fmin = f_lo,
                               fmax = f_hi, ppd = p, num_sweeps_at_T = sweeps,
                               sweep_delay = delay, scan_at_first_T = flag, up = is_up,
                               num_intervals = k, temps = ts, numpoints = np,
                               frange = fr \<rparr>))))"

section \<open>RampInputPage: sanity_check and input_ramp\<close>

text \<open>
  The limits that \<open>sanity_check\<close> reads from the global stage and analyser objects.
  The virtual stage and the virtual analyser are in the repository; the limits of the
  Linkam stages are read from the vendor library, so the limits are parameters here.
\<close>

record stage_limits =
  min_temp :: real
  max_temp :: real
  min_rate :: real
  max_rate :: real

record analyser_limits =
  min_V :: real
  max_V :: real
  min_frequency :: real
  max_frequency :: real

definition virtual_stage_limits :: stage_limits where
  "virtual_stage_limits = \<lparr> min_temp = 0, max_temp = 500, min_rate = 1, max_rate = 30 \<rparr>"

definition virtual_analyser_limits :: analyser_limits where
  "virtual_analyser_limits =
     \<lparr> min_V = 1, max_V = 100, min_frequency = 1 / 100000, max_frequency = 32000000 \<rparr>"

text \<open>
  \<open>sanity_check\<close> returns the pair \<open>(ok, fault)\<close>. Its checks run in the order of the
  source. The two \<open>isinstance(..., int)\<close> checks cannot fail for the integer fields of
  the record and are left out. The division by \<open>ramp.interval\<close> raises for 0.
\<close>

definition sanity_check ::
  "stage_limits \<Rightarrow> analyser_limits \<Rightarrow> ramp \<Rightarrow> py_error + (bool \<times> string option)" where
  "sanity_check st an r =
     (if \<not> (min_temp st \<le> start_temp r \<and> start_temp r \<le> max_temp st)
        then Inr (False, Some ''Start Temp'')
      else if \<not> (min_temp st \<le> end_temp r \<and> end_temp r \<le> max_temp st)
        then Inr (False, Some ''End Temp'')
      else if \<not> (min_rate st \<le> rate r \<and> rate r \<le> max_rate st)
        then Inr (False, Some ''Rate'')
      else if interval r = 0 then Inl ZeroDivisionError
      else if frac \<bar>(end_temp r - start_temp r) / of_int (interval r)\<bar> \<noteq> 0
        then Inr (False, Some ''(T2 - T1) / dT =/= 0'')
      else if \<bar>interval r\<bar> < 1 then Inr (False, Some ''Interval'')
      else if \<not> (1 \<le> min_holdtime r \<and> min_holdtime r \<le> 30000000)
        then Inr (False, Some ''Minimum Holdtime'')
      else if \<not> (min_V an \<le> voltage r \<and> voltage r \<le> max_V an)
        then Inr (False, Some ''Voltage'')
      else if fmax r \<le> fmin r then Inr (False, Some ''fmin >= fmax'')
      else if fmin r < min_frequency an then Inr (False, Some ''Minimum Frequency'')
      else if max_frequency an < fmax r then Inr (False, Some ''Maximum Frequency'')
      else if ppd r < 1 then Inr (False, Some ''PPD'')
      else if num_sweeps_at_T r < 0 then Inr (False, Some ''#Sweeps'')
      else if sweep_delay r < 5 then Inr (False, Some ''Sweep Delay'')
      else if scan_at_first_T r = None then Inr (False, Some ''Scan @ first T y/n'')
      else Inr (True, None))"

text \<open>
  \<open>input_ramp\<close> on the parsed entries; the answer to "scan at first T" is put in lower
  case. The constructor runs inside \<open>try\<close> with a bare
  \<open>except\<close>, so every exception of \<open>Ramp\<close> ends in the warning
  \<open>Input(s) invalid\<close>; a ramp that fails \<open>sanity_check\<close> ends in the warning with the
  fault name. Only a ramp that passes both is appended to \<open>ramps\<close>, and only then the
  counter grows. The result is the list \<open>ramps\<close>, the counter and the warning shown.
\<close>

datatype warning = Input_invalid | Fault string

record ramp_entries =
  e_start_temp :: real
  e_end_temp :: real
  e_rate :: real
  e_interval :: int
  e_min_holdtime :: int
  e_voltage :: real
  e_fmin :: real
  e_fmax :: real
  e_ppd :: int
  e_num_sweeps :: int
  e_sweep_delay :: int
  e_scan_at_first_T :: string

definition input_ramp ::
  "stage_limits \<Rightarrow> analyser_limits \<Rightarrow> ramp list \<Rightarrow> nat \<Rightarrow> ramp_entries
     \<Rightarrow> py_error + (ramp list \<times> nat \<times> warning option)" where
  "input_ramp st an ramps ramp_count e =
     (case Ramp (int ramp_count + 1) (e_start_temp e) (e_end_temp e) (e_rate e)
             (e_interval e) (e_min_holdtime e) (e_voltage e) (e_fmin e) (e_fmax e)
             (e_ppd e) (e_num_sweeps e) (e_sweep_delay e)
             (py_lower (e_scan_at_first_T e)) of
        Inl _ \<Rightarrow> Inr (ramps, ramp_count, Some Input_invalid)
      | Inr r \<Rightarrow>
          (case sanity_check st an r of
             Inl err \<Rightarrow> Inl err
           | Inr (ok, fault) \<Rightarrow>
               if ok then Inr (ramps @ [r], ramp_count + 1, None)
               else Inr (ramps, ramp_count, Some (Fault (case fault of None \<Rightarrow> ''None'' | Some f \<Rightarrow> f)))))"

text \<open>The entries that the input page shows at first (\<open>default_entries\<close>).\<close>

definition default_entries :: ramp_entries where
  "default_entries =
     \<lparr> e_start_temp = 30, e_end_temp = 60, e_rate = 5, e_interval = 10,
       e_min_holdtime = 300, e_voltage = 50, e_fmin = 1 / 10, e_fmax = 10000000,
       e_ppd = 10, e_num_sweeps = 1, e_sweep_delay = 300, e_scan_at_first_T = ''y'' \<rparr>"

section \<open>RunningPage: the control loop\<close>

text \<open>
  The control thread talks to the stage, the analyser and the dashboard. Every call it
  makes is recorded as an event, in program order. The status texts are kept as
  constructors that carry the arguments of the format string; the flag of
  \<open>Update_status\<close> is the \<open>log\<close> argument of \<open>update_status\<close>.
\<close>

datatype status =
    Experiment_starting
  | Heating_cooling_to real
  | Temperature_not_T real
  | Holding_at real int
  | Waiting_for_next_sweep int
  | Beginning_sweep int int
  | Performing_sweep int int
  | No_sweeps
  | Experiment_complete
  | Stop_button_used

datatype event =
    Start_heating real real int
  | Stop_heating
  | Get_holdtime_remaining real
  | Get_temperature real
  | Toggle_hold
  | Update_tolerance real
  | Sleep real
  | Update_status status bool
  | Update_measurement_info real nat nat
  | Measure_impedance nat real nat
  | Mkdir_ramp int bool
  | Move_log
  | Save_plot

text \<open>
  The stage object: whether it is the virtual stage, and the tolerance that
  \<open>update_tolerance\<close> sets for a set-point (the Linkam driver is not part of the
  sources, so the tolerance is a parameter).
\<close>

record stage =
  is_virtual :: bool
  tolerance_for :: "real \<Rightarrow> real"

text \<open>
  What the hardware answers is scripted: the values that the successive calls of
  \<open>get_holdtime_remaining\<close> and \<open>get_temperature\<close> return to the control thread,
  and for each sweep the number of one-second polls during which the measurement
  thread is still alive. A loop that is still waiting when its script is used up has
  not returned: the result is \<open>None\<close>.
\<close>

record hardware =
  holdtimes :: "real list"
  temperatures :: "real list"
  sweep_polls :: "nat list"

text \<open>\<open>while stage.get_holdtime_remaining() == 0.0: time.sleep(1)\<close>\<close>

fun wait_while_heating :: "real list \<Rightarrow> (event list \<times> real list) option" where
  "wait_while_heating [] = None"
| "wait_while_heating (h # hs) =
     (if h = 0 then
        (case wait_while_heating hs of
           None \<Rightarrow> None
         | Some (evs, rest) \<Rightarrow> Some (Get_holdtime_remaining h # Sleep 1 # evs, rest))
      else Some ([Get_holdtime_remaining h], hs))"

text \<open>
  The \<open>while True\<close> loop that re-issues the heating command until the temperature read
  after the wait is within one degree of the set-point. Each turn reads one temperature.
\<close>

fun heat_until_reached ::
  "real \<Rightarrow> real \<Rightarrow> int \<Rightarrow> bool \<Rightarrow> real list \<Rightarrow> real list
     \<Rightarrow> (event list \<times> real list \<times> real list) option" where
  "heat_until_reached temp rt ht first_iter hs [] = None"
| "heat_until_reached temp rt ht first_iter hs (t # ts) =
     (case wait_while_heating hs of
        None \<Rightarrow> None
      | Some (evs, hs') \<Rightarrow>
          (let turn = [Start_heating temp rt ht, Sleep 3,
                       Update_status (Heating_cooling_to temp) first_iter]
                      @ evs @ [Get_temperature t]
           in if temp - 1 \<le> t \<and> t \<le> temp + 1 then Some (turn, hs', ts)
              else (case heat_until_reached temp rt ht False hs' ts of
                      None \<Rightarrow> None
                    | Some (evs', hs'', ts') \<Rightarrow> Some (turn @ evs', hs'', ts'))))"

text \<open>
  The settling loop of a stage that is not the virtual stage:
  \<open>while not (temp - tolerance <= get_temperature() <= temp + tolerance)\<close>.
\<close>

fun wait_within_tolerance ::
  "real \<Rightarrow> real \<Rightarrow> bool \<Rightarrow> real list \<Rightarrow> (event list \<times> real list) option" where
  "wait_within_tolerance temp tol first_iter [] = None"
| "wait_within_tolerance temp tol first_iter (t # ts) =
     (if temp - tol \<le> t \<and> t \<le> temp + tol then Some ([Get_temperature t], ts)
      else (case wait_within_tolerance temp tol False ts of
              None \<Rightarrow> None
            | Some (evs, ts') \<Rightarrow>
                Some ([Get_temperature t, Update_status (Temperature_not_T temp) first_iter,
                       Sleep 1] @ evs, ts')))"

definition settle :: "stage \<Rightarrow> real \<Rightarrow> real list \<Rightarrow> (event list \<times> real list) option" where
  "settle stg temp ts =
     (if is_virtual stg then Some ([Toggle_hold], ts)
      else (case wait_within_tolerance temp (tolerance_for stg temp) True ts of
              None \<Rightarrow> None
            | Some (evs, ts') \<Rightarrow> Some ([Toggle_hold, Update_tolerance temp] @ evs, ts')))"

text \<open>The dwell: \<open>while holdtime_remaining > 0.0\<close>, one second per turn.\<close>

function hold_for :: "real \<Rightarrow> int \<Rightarrow> bool \<Rightarrow> event list" where
  "hold_for temp remaining first_iter =
     (if 0 < remaining
      then [Update_status (Holding_at temp remaining) first_iter, Sleep 1]
           @ hold_for temp (remaining - 1) False
      else [])"
  by pat_completeness auto
termination
  by (relation "measure (\<lambda>(temp, remaining, first_iter). nat remaining)") auto

declare hold_for.simps [simp del]

text \<open>\<open>for seconds_elapsed in range(ramp.sweep_delay)\<close>, before every sweep but the first.\<close>

definition wait_sweep_delay :: "int \<Rightarrow> event list" where
  "wait_sweep_delay delay =
     concat (map (\<lambda>s. [Update_status (Waiting_for_next_sweep (delay - int s)) (s = 0), Sleep 1])
                 [0..<nat delay])"

text \<open>
  The sweeps at one set-point, \<open>for sweep_num in range(ramp.num_sweeps_at_T)\<close>. The
  measurement runs in a thread of its own; the control thread records its start and polls
  once a second until the thread has ended.
\<close>

fun sweeps_at ::
  "ramp \<Rightarrow> real \<Rightarrow> nat \<Rightarrow> nat list \<Rightarrow> real list \<Rightarrow> nat list
     \<Rightarrow> (event list \<times> real list \<times> nat list) option" where
  "sweeps_at r temp k [] ts ps = Some ([], ts, ps)"
| "sweeps_at r temp k (sweep_num # rest) [] ps = None"
| "sweeps_at r temp k (sweep_num # rest) (tcell # ts) [] = None"
| "sweeps_at r temp k (sweep_num # rest) (tcell # ts) (p # ps) =
     (case sweeps_at r temp k rest ts ps of
        None \<Rightarrow> None
      | Some (evs, ts', ps') \<Rightarrow>
          Some ([Update_measurement_info temp (k + 1) (sweep_num + 1)]
                @ (if sweep_num \<noteq> 0 then wait_sweep_delay (sweep_delay r) else [])
                @ [Get_temperature tcell,
                   Update_status (Beginning_sweep (int sweep_num + 1) (num_sweeps_at_T r)) True,
                   Measure_impedance sweep_num tcell k, Sleep 1,
                   Update_status (Performing_sweep (int sweep_num + 1) (num_sweeps_at_T r)) True]
                @ replicate p (Sleep 1) @ evs, ts', ps'))"

text \<open>The body of \<open>for temp_interval_num, temp in enumerate(ramp.temps)\<close>.\<close>

definition temperature_point ::
  "stage \<Rightarrow> ramp \<Rightarrow> nat \<Rightarrow> real \<Rightarrow> hardware \<Rightarrow> (event list \<times> hardware) option" where
  "temperature_point stg r k temp hw =
     (case heat_until_reached temp (rate r) (min_holdtime r) True (holdtimes hw) (temperatures hw) of
        None \<Rightarrow> None
      | Some (reach, hs, ts) \<Rightarrow>
          (case settle stg temp ts of
             None \<Rightarrow> None
           | Some (settling, ts') \<Rightarrow>
               (case (if num_sweeps_at_T r \<noteq> 0
                      then sweeps_at r temp k [0..<nat (num_sweeps_at_T r)] ts' (sweep_polls hw)
                      else Some ([Update_status No_sweeps True], ts', sweep_polls hw)) of
                  None \<Rightarrow> None
                | Some (sweeping, ts'', ps) \<Rightarrow>
                    Some ([Update_measurement_info temp (k + 1) 0] @ reach @ settling
                          @ hold_for temp (min_holdtime r) True @ sweeping
                          @ [Toggle_hold, Update_measurement_info temp (k + 1) 0],
                          \<lparr> holdtimes = hs, temperatures = ts'', sweep_polls = ps \<rparr>))))"

fun ramp_points ::
  "stage \<Rightarrow> ramp \<Rightarrow> nat \<Rightarrow> real list \<Rightarrow> hardware \<Rightarrow> (event list \<times> hardware) option" where
  "ramp_points stg r k [] hw = Some ([], hw)"
| "ramp_points stg r k (temp # rest) hw =
     (case temperature_point stg r k temp hw of
        None \<Rightarrow> None
      | Some (evs, hw') \<Rightarrow>
          (case ramp_points stg r (k + 1) rest hw' of
             None \<Rightarrow> None
           | Some (evs', hw'') \<Rightarrow> Some (evs @ evs', hw'')))"

text \<open>
  The attributes of the running page that the control thread, the temperature thread and
  the stop button share, the two fields of \<open>details.json\<close> that they write, and the
  record of the calls made so far.
\<close>

record running_page =
  stop_thread :: bool
  complete :: bool
  time_elapsed_text :: string
  details_complete :: bool
  details_time_elapsed :: "string option"
  calls :: "event list"
  exited :: bool

definition ramp_and_measure ::
  "running_page \<Rightarrow> ramp \<Rightarrow> stage \<Rightarrow> hardware \<Rightarrow> (running_page \<times> hardware) option" where
  "ramp_and_measure page r stg hw =
     (case ramp_points stg r 0 (temps r) hw of
        None \<Rightarrow> None
      | Some (evs, hw') \<Rightarrow> Some (page\<lparr> calls := calls page @ evs \<rparr>, hw'))"

text \<open>The targets of the heating commands among the calls, in order.\<close>

fun heating_targets :: "event list \<Rightarrow> real list" where
  "heating_targets [] = []"
| "heating_targets (Start_heating temp rt ht # evs) = temp # heating_targets evs"
| "heating_targets (_ # evs) = heating_targets evs"

text \<open>The temperatures that the control thread has read among the calls, in order.\<close>

fun temperature_readings :: "event list \<Rightarrow> real list" where
  "temperature_readings [] = []"
| "temperature_readings (Get_temperature t # evs) = t # temperature_readings evs"
| "temperature_readings (_ # evs) = temperature_readings evs"

text \<open>The set-points of the sweeps started among the calls, in order.\<close>

fun measured_points :: "event list \<Rightarrow> nat list" where
  "measured_points [] = []"
| "measured_points (Measure_impedance sweep_num tcell k # evs) = k # measured_points evs"
| "measured_points (_ # evs) = measured_points evs"

section \<open>RunningPage: the main loop, the temperature thread and the stop button\<close>

text \<open>\<open>str(n)\<close> of a natural number, and \<open>str(datetime.timedelta(seconds = n))\<close>.\<close>

fun str_nat :: "nat \<Rightarrow> string" where
  "str_nat n =
     (if n < 10 then [char_of (48 + n)]
      else str_nat (n div 10) @ [char_of (48 + n mod 10)])"

declare str_nat.simps [simp del]

definition two_digits :: "nat \<Rightarrow> string" where
  "two_digits n = (if n < 10 then ''0'' @ str_nat n else str_nat n)"

definition str_timedelta :: "nat \<Rightarrow> string" where
  "str_timedelta seconds =
     (let days = seconds div 86400;
          s = seconds mod 86400;
          hms = str_nat (s div 3600) @ '':'' @ two_digits (s mod 3600 div 60)
                @ '':'' @ two_digits (s mod 60)
      in if days = 0 then hms
         else str_nat days @ (if days = 1 then '' day, '' else '' days, '') @ hms)"

text \<open>
  The page as \<open>__init__\<close> and \<open>setup_info\<close> leave it: every dashboard entry shows
  \<open>-\<close>, and \<open>details.json\<close> holds \<open>complete = False\<close> as \<open>start_button_func\<close> wrote it.
\<close>

definition initial_page :: running_page where
  "initial_page =
     \<lparr> stop_thread = False, complete = False, time_elapsed_text = ''-'',
       details_complete = False, details_time_elapsed = None, calls = [], exited = False \<rparr>"

text \<open>
  One turn of \<open>while not self.stop_thread\<close> in \<open>_update_temperature_and_time\<close>, at the
  given number of whole seconds since the start. This loop is the only reader of
  \<open>stop_thread\<close>.
\<close>

definition update_temperature_and_time :: "nat \<Rightarrow> running_page \<Rightarrow> running_page" where
  "update_temperature_and_time seconds page =
     (if stop_thread page then page
      else if \<not> complete page then page\<lparr> time_elapsed_text := str_timedelta seconds \<rparr>
      else page)"

text \<open>The loop \<open>for ramp in ramps\<close> of \<open>experiment_mainloop\<close>.\<close>

fun measure_ramps ::
  "running_page \<Rightarrow> ramp list \<Rightarrow> stage \<Rightarrow> hardware \<Rightarrow> (running_page \<times> hardware) option" where
  "measure_ramps page [] stg hw = Some (page, hw)"
| "measure_ramps page (r # rs) stg hw =
     (case ramp_and_measure (page\<lparr> calls := calls page @ [Mkdir_ramp (num r) (up r)] \<rparr>) r stg hw of
        None \<Rightarrow> None
      | Some (page', hw') \<Rightarrow> measure_ramps page' rs stg hw')"

definition experiment_mainloop ::
  "running_page \<Rightarrow> ramp list \<Rightarrow> stage \<Rightarrow> hardware \<Rightarrow> (running_page \<times> hardware) option" where
  "experiment_mainloop page ramps stg hw =
     (case measure_ramps
             (page\<lparr> complete := False, stop_thread := False,
                    calls := calls page @ [Update_status Experiment_starting True] \<rparr>)
             ramps stg hw of
        None \<Rightarrow> None
      | Some (page', hw') \<Rightarrow>
          Some (page'\<lparr> details_complete := True,
                       details_time_elapsed := Some (time_elapsed_text page'),
                       calls := calls page' @ [Update_status Experiment_complete True,
                                               Stop_heating, Move_log, Save_plot],
                       complete := True \<rparr>, hw'))"

text \<open>
  \<open>stop_button_func\<close>, run by the user-interface thread: it stops the stage, writes the
  text of the \<open>Time Elapsed\<close> entry into \<open>details.json\<close>, sets \<open>stop_thread\<close> and ends
  the process with \<open>sys.exit()\<close>.
\<close>

definition stop_button_func :: "running_page \<Rightarrow> running_page" where
  "stop_button_func page =
     page\<lparr> details_time_elapsed := Some (time_elapsed_text page),
           calls := calls page @ [Stop_heating, Move_log, Update_status Stop_button_used True,
                                  Sleep (1 / 2), Save_plot],
           stop_thread := True,
           exited := True \<rparr>"

text \<open>
  The pages that can be seen while the experiment runs: the page as the main loop
  starts on it, the page after a turn of the temperature thread, and the page after the
  control thread has finished one more ramp.
\<close>

inductive experiment_running :: "running_page \<Rightarrow> bool" where
  started:
    "experiment_running (initial_page\<lparr> calls := [Update_status Experiment_starting True] \<rparr>)"
| sampled:
    "experiment_running page \<Longrightarrow> experiment_running (update_temperature_and_time seconds page)"
| ramp_done:
    "experiment_running page \<Longrightarrow>
     ramp_and_measure (page\<lparr> calls := calls page @ [Mkdir_ramp (num r) (up r)] \<rparr>) r stg hw
       = Some (page', hw') \<Longrightarrow>
     experiment_running page'"

section \<open>Strings: split and join\<close>

text \<open>\<open>s.split(c)\<close> for a one-character separator, and \<open>sep.join(words)\<close>.\<close>

fun split_on :: "char \<Rightarrow> string \<Rightarrow> string list" where
  "split_on c [] = [[]]"
| "split_on c (x # xs) =
     (if x = c then [] # split_on c xs
      else (case split_on c xs of
              [] \<Rightarrow> [[x]]
            | w # ws \<Rightarrow> (x # w) # ws))"

fun join :: "string \<Rightarrow> string list \<Rightarrow> string" where
  "join sep [] = []"
| "join sep [w] = w"
| "join sep (w # ws) = w @ sep @ join sep ws"

section \<open>The sweep data file\<close>

text \<open>
  A sweep file is the list of the lines written to it: the line of column names, the
  line of sweep metadata (sweep number, cell temperature, \<open>ramp.end_temp\<close>, direction),
  and one line per result, a text line from the Solartron or three numbers from the
  Biologic. Every data line is written by its own \<open>open(..., "a")\<close> and \<open>write\<close>.
\<close>

datatype line =
    Column_names
  | Sweep_metadata nat real real bool
  | Text_row string
  | Result_row "real list"


section \<open>solartron1260.measure_impedance_process\<close>

text \<open>
  The instrument is a function from the number of the call of \<open>measure_frequency\<close> and
  the frequency asked for to the string read back, or to the exception raised.
\<close>

type_synonym instrument = "nat \<Rightarrow> real \<Rightarrow> py_error + string"

text \<open>\<open>",".join(result.split(",")[:4])\<close>\<close>

definition first_four_fields :: "string \<Rightarrow> string" where
  "first_four_fields result = join '','' (take 4 (split_on (CHR '','') result))"

text \<open>
  The loop \<open>for i, f in enumerate(ramp.frange)\<close>. The state is the number of calls made
  and the file; the result also says which exception, if any, ended the thread.
  A call that raises is followed by a call at 1 Hz and one more call at the frequency;
  neither of the two is inside a \<open>try\<close>.
\<close>

fun measure_frequencies ::
  "instrument \<Rightarrow> nat \<Rightarrow> real list \<Rightarrow> line list \<Rightarrow> py_error option \<times> nat \<times> line list" where
  "measure_frequencies m n [] file = (None, n, file)"
| "measure_frequencies m n (f # fs) file =
     (case m n f of
        Inr result \<Rightarrow>
          measure_frequencies m (n + 1) fs (file @ [Text_row (first_four_fields result)])
      | Inl _ \<Rightarrow>
          (case m (n + 1) 1 of
             Inl e \<Rightarrow> (Some e, n + 2, file)
           | Inr _ \<Rightarrow>
               (case m (n + 2) f of
                  Inl e \<Rightarrow> (Some e, n + 3, file)
                | Inr result \<Rightarrow>
                    measure_frequencies m (n + 3) fs
                      (file @ [Text_row (first_four_fields result)]))))"


section \<open>The Biologic SP-200: measure_impedance_process and get_result\<close>

text \<open>
  What one call of \<open>BL_GetData\<close> delivers: its error code, the process index, and the
  buffer of \<open>NbRows * NbCols\<close> entries, each with the error code of its conversion and
  the converted number. Error code 0 is \<open>ERR_NOERROR\<close>.
\<close>

record packet =
  get_data_error :: int
  process_index :: int
  buffer :: "(int \<times> real) list"

text \<open>The loop \<open>for i in range(infos.NbRows * infos.NbCols)\<close> with its conversion check.\<close>

fun convert_buffer :: "(int \<times> real) list \<Rightarrow> py_error + real list" where
  "convert_buffer [] = Inr []"
| "convert_buffer ((err, v) # rest) =
     (if err \<noteq> 0 then Inl DeviceError
      else (case convert_buffer rest of Inl e \<Rightarrow> Inl e | Inr vs \<Rightarrow> Inr (v # vs)))"

text \<open>
  \<open>[round(data[0], 2), round(abs(data[1]) / abs(data[2]), 2), round(data[3], 2)]\<close>,
  evaluated from left to right: each index raises when it is out of range, and the
  division raises when the current is zero.
\<close>

definition make_result :: "real list \<Rightarrow> py_error + real list" where
  "make_result data =
     (if length data < 3 then Inl IndexError
      else if \<bar>data ! 2\<bar> = 0 then Inl ZeroDivisionError
      else if length data < 4 then Inl IndexError
      else Inr [py_round2 (data ! 0), py_round2 (\<bar>data ! 1\<bar> / \<bar>data ! 2\<bar>),
                py_round2 (data ! 3)])"

text \<open>
  \<open>get_result\<close>: \<open>while not data\<close> asks for packets until one of process index 1 has
  delivered numbers. The packets still to come are scripted; asking after the last one
  has not returned.
\<close>

fun get_result :: "packet list \<Rightarrow> ((py_error + (real list \<times> int)) \<times> packet list) option" where
  "get_result [] = None"
| "get_result (p # ps) =
     (if get_data_error p \<noteq> 0 then Some (Inl DeviceError, ps)
      else if process_index p = 1 then
        (case convert_buffer (buffer p) of
           Inl e \<Rightarrow> Some (Inl e, ps)
         | Inr data \<Rightarrow>
             if data = [] then get_result ps
             else (case make_result data of
                     Inl e \<Rightarrow> Some (Inl e, ps)
                   | Inr result \<Rightarrow> Some (Inr (result, process_index p), ps)))
      else get_result ps)"

text \<open>The main loop \<open>for i in range(ramp.numpoints)\<close>; \<open>ramp.frange[i]\<close> feeds the label.\<close>

fun collect_results ::
  "real list \<Rightarrow> nat \<Rightarrow> nat \<Rightarrow> packet list \<Rightarrow> line list
     \<Rightarrow> (py_error option \<times> line list \<times> packet list) option" where
  "collect_results fr i 0 ps file = Some (None, file, ps)"
| "collect_results fr i (Suc n) ps file =
     (if length fr \<le> i then Some (Some IndexError, file, ps)
      else (case get_result ps of
              None \<Rightarrow> None
            | Some (Inl e, ps') \<Rightarrow> Some (Some e, file, ps')
            | Some (Inr (result, idx), ps') \<Rightarrow>
                collect_results fr (i + 1) n ps'
                  (if idx = 1 then file @ [Result_row result] else file)))"


section \<open>StartPage.start_button_func: the experiment directory\<close>

text \<open>
  The loop that looks for a directory name that is not taken. \<open>dirs\<close> are the names
  that exist under \<open>experiments\<close>. The loop has no bound in the source; here it stops
  with \<open>None\<close> when the given number of turns is used up.
\<close>

fun choose_directory :: "nat \<Rightarrow> string list \<Rightarrow> string \<Rightarrow> nat \<Rightarrow> string option" where
  "choose_directory 0 dirs experiment_name duplicate_num = None"
| "choose_directory (Suc turns) dirs experiment_name duplicate_num =
     (if experiment_name \<notin> set dirs then Some experiment_name
      else if last (split_on (CHR ''_'') experiment_name) = str_nat (duplicate_num - 1)
      then choose_directory turns dirs
             (hd (split_on (CHR ''_'') experiment_name) @ ''_'' @ str_nat duplicate_num)
             (duplicate_num + 1)
      else choose_directory turns dirs
             (experiment_name @ ''_'' @ str_nat duplicate_num) (duplicate_num + 1))"

definition start_button_func :: "nat \<Rightarrow> string list \<Rightarrow> string \<Rightarrow> string option" where
  "start_button_func turns dirs experiment_name = choose_directory turns dirs experiment_name 1"

section \<open>Example runs\<close>

text \<open>
  The virtual stage, and a stage that is not virtual with a tolerance of a tenth of a
  degree at every set-point.
\<close>

definition virtual_stage :: stage where
  "virtual_stage = \<lparr> is_virtual = True, tolerance_for = (\<lambda>temp. 0) \<rparr>"

definition hardware_stage :: stage where
  "hardware_stage = \<lparr> is_virtual = False, tolerance_for = (\<lambda>temp. 1 / 10) \<rparr>"

text \<open>
  A script for three set-points with one sweep each: the stage reports one second of
  heating and then a hold; the temperature read after the wait and the one read before
  the sweep are near the set-point; each sweep takes two polls.
\<close>

definition three_point_script :: hardware where
  "three_point_script =
     \<lparr> holdtimes = [0, 3, 0, 3, 0, 3],
       temperatures = [81 / 2, 201 / 5, 50, 50, 60, 60],
       sweep_polls = [2, 2, 2] \<rparr>"

text \<open>The first third of that script: one set-point with one sweep.\<close>

definition one_point_script :: hardware where
  "one_point_script =
     \<lparr> holdtimes = [0, 3], temperatures = [81 / 2, 201 / 5], sweep_polls = [2] \<rparr>"

text \<open>The ramp from 30 to 60 in steps of 10 as the constructor builds it for \<open>n\<close>.\<close>

definition example_ramp :: ramp where
  "example_ramp =
     \<lparr> num = 1, interval = 10, start_temp = 30, end_temp = 60, rate = 5,
       min_holdtime = 2, voltage = 50, fmin = 1 / 10, fmax = 10000000, ppd = 10,
       num_sweeps_at_T = 1, sweep_delay = 5, scan_at_first_T = Some False, up = True,
       num_intervals = 3, temps = [40, 50, 60], numpoints = 80,
       frange = rev (logspace (- 1) 7 80) \<rparr>"

text \<open>
  A script for one set-point of 40 degrees on a stage with a tolerance: the first
  reading is within a degree, the next is outside the tolerance, the third is inside.
\<close>

definition settling_script :: hardware where
  "settling_script =
     \<lparr> holdtimes = [0, 3],
       temperatures = [81 / 2, 403 / 10, 801 / 20, 40],
       sweep_polls = [2] \<rparr>"


definition flaky_instrument :: instrument where
  "flaky_instrument = (\<lambda>n f. if n = 0 then Inl DeviceError else Inr ''7,8,9,0,0'')"

definition failing_instrument :: instrument where
  "failing_instrument = (\<lambda>n f. if n = 1 then Inr ''7,8,9,0,0'' else Inl DeviceError)"

definition garbled_instrument :: instrument where
  "garbled_instrument = (\<lambda>n f. Inr ''garbage'')"

text \<open>Two packets of process index 1: one with a current of 2, one with a current of zero.\<close>

definition good_packet :: packet where
  "good_packet = \<lparr> get_data_error = 0, process_index = 1,
                   buffer = [(0, 1000), (0, 5), (0, 2), (0, 1)] \<rparr>"

definition zero_current_packet :: packet where
  "zero_current_packet = \<lparr> get_data_error = 0, process_index = 1,
                           buffer = [(0, 1000), (0, 5), (0, 0), (0, 1)] \<rparr>"

section \<open>Facts about the arithmetic of Ramp\<close>




lemma log10_example_hi: "log 10 (10000000::real) = 7"
proof -
  have "(10000000::real) = 10 ^ 7" by simp
  then show ?thesis by (simp only: log_pow_cancel)
qed

lemma log10_example_lo: "log 10 (1 / 10 :: real) = - 1"
  by (simp add: log_divide)

lemma numpoints_example: "ramp_numpoints 10 (1 / 10) 10000000 = Inr 80"
  by (simp add: ramp_numpoints_def log10_example_hi log10_example_lo py_int_def)



section \<open>Set-point expansion\<close>




section \<open>The frequency list\<close>













section \<open>Facts about the calls of the control loop\<close>

lemma heating_targets_append:
  "heating_targets (a @ b) = heating_targets a @ heating_targets b"
  by (induction a rule: heating_targets.induct) simp_all

lemma measured_points_append:
  "measured_points (a @ b) = measured_points a @ measured_points b"
  by (induction a rule: measured_points.induct) simp_all

lemma heating_targets_replicate_Sleep [simp]: "heating_targets (replicate p (Sleep x)) = []"
  by (induction p) simp_all

lemma measured_points_replicate_Sleep [simp]: "measured_points (replicate p (Sleep x)) = []"
  by (induction p) simp_all

lemma wait_while_heating_quiet:
  "wait_while_heating hs = Some (evs, rest) \<Longrightarrow>
     heating_targets evs = [] \<and> measured_points evs = []"
  by (induction hs arbitrary: evs rest) (auto split: if_splits option.splits)

lemma wait_while_heating_last:
  "wait_while_heating hs = Some (evs, rest) \<Longrightarrow>
     \<exists>pre h. evs = pre @ [Get_holdtime_remaining h] \<and> h \<noteq> 0"
proof (induction hs arbitrary: evs rest)
  case Nil
  then show ?case by simp
next
  case (Cons h hs)
  show ?case
  proof (cases "h = 0")
    case False
    with Cons.prems show ?thesis by auto
  next
    case True
    with Cons.prems obtain evs' where w: "wait_while_heating hs = Some (evs', rest)"
      and e: "evs = Get_holdtime_remaining h # Sleep 1 # evs'"
      by (auto split: option.splits)
    from Cons.IH[OF w] obtain pre h' where "evs' = pre @ [Get_holdtime_remaining h']" "h' \<noteq> 0"
      by blast
    with e have "evs = (Get_holdtime_remaining h # Sleep 1 # pre) @ [Get_holdtime_remaining h']"
      by simp
    with \<open>h' \<noteq> 0\<close> show ?thesis by blast
  qed
qed

lemma heat_until_reached_targets:
  "heat_until_reached temp rt ht first hs ts = Some (evs, hs', ts') \<Longrightarrow>
     (\<exists>n. heating_targets evs = replicate (Suc n) temp) \<and> measured_points evs = []"
proof (induction ts arbitrary: first hs evs hs' ts')
  case Nil
  then show ?case by simp
next
  case (Cons t ts)
  from Cons.prems obtain w hs1 where w: "wait_while_heating hs = Some (w, hs1)"
    by (auto split: option.splits)
  note q = wait_while_heating_quiet[OF w]
  show ?case
  proof (cases "temp - 1 \<le> t \<and> t \<le> temp + 1")
    case True
    with Cons.prems w have "evs = [Start_heating temp rt ht, Sleep 3,
        Update_status (Heating_cooling_to temp) first] @ w @ [Get_temperature t]"
      by (auto simp: Let_def)
    then have "heating_targets evs = replicate (Suc 0) temp \<and> measured_points evs = []"
      using q by (simp add: heating_targets_append measured_points_append)
    then show ?thesis by blast
  next
    case False
    with Cons.prems w obtain evs2 where
      r: "heat_until_reached temp rt ht False hs1 ts = Some (evs2, hs', ts')"
      and e: "evs = ([Start_heating temp rt ht, Sleep 3,
        Update_status (Heating_cooling_to temp) first] @ w @ [Get_temperature t]) @ evs2"
      by (auto simp: Let_def split: option.splits)
    from Cons.IH[OF r] obtain n where "heating_targets evs2 = replicate (Suc n) temp"
      "measured_points evs2 = []" by blast
    with e q have "heating_targets evs = replicate (Suc (Suc n)) temp \<and> measured_points evs = []"
      by (simp add: heating_targets_append measured_points_append)
    then show ?thesis by blast
  qed
qed

lemma heat_until_reached_last:
  "heat_until_reached temp rt ht first hs ts = Some (evs, hs', ts') \<Longrightarrow>
     \<exists>pre h t. evs = pre @ [Get_holdtime_remaining h, Get_temperature t]
        \<and> h \<noteq> 0 \<and> temp - 1 \<le> t \<and> t \<le> temp + 1"
proof (induction ts arbitrary: first hs evs hs' ts')
  case Nil
  then show ?case by simp
next
  case (Cons t ts)
  from Cons.prems obtain w hs1 where w: "wait_while_heating hs = Some (w, hs1)"
    by (auto split: option.splits)
  from wait_while_heating_last[OF w] obtain pre h
    where pre: "w = pre @ [Get_holdtime_remaining h]" "h \<noteq> 0" by blast
  show ?case
  proof (cases "temp - 1 \<le> t \<and> t \<le> temp + 1")
    case True
    with Cons.prems w pre have "evs = ([Start_heating temp rt ht, Sleep 3,
        Update_status (Heating_cooling_to temp) first] @ pre)
        @ [Get_holdtime_remaining h, Get_temperature t]"
      by (auto simp: Let_def)
    with True pre(2) show ?thesis by blast
  next
    case False
    with Cons.prems w obtain evs2 where
      r: "heat_until_reached temp rt ht False hs1 ts = Some (evs2, hs', ts')"
      and e: "evs = ([Start_heating temp rt ht, Sleep 3,
        Update_status (Heating_cooling_to temp) first] @ w @ [Get_temperature t]) @ evs2"
      by (auto simp: Let_def split: option.splits)
    from Cons.IH[OF r] obtain pre2 h2 t2 where
      "evs2 = pre2 @ [Get_holdtime_remaining h2, Get_temperature t2]"
      "h2 \<noteq> 0" "temp - 1 \<le> t2" "t2 \<le> temp + 1" by blast
    with e have "evs = (([Start_heating temp rt ht, Sleep 3,
        Update_status (Heating_cooling_to temp) first] @ w @ [Get_temperature t]) @ pre2)
        @ [Get_holdtime_remaining h2, Get_temperature t2]" by simp
    with \<open>h2 \<noteq> 0\<close> \<open>temp - 1 \<le> t2\<close> \<open>t2 \<le> temp + 1\<close> show ?thesis by blast
  qed
qed

lemma wait_within_tolerance_quiet:
  "wait_within_tolerance temp tol first ts = Some (evs, ts') \<Longrightarrow>
     heating_targets evs = [] \<and> measured_points evs = [] \<and> Toggle_hold \<notin> set evs"
  by (induction ts arbitrary: first evs ts') (auto split: if_splits option.splits)

lemma wait_within_tolerance_last:
  "wait_within_tolerance temp tol first ts = Some (evs, ts') \<Longrightarrow>
     \<exists>polls t. evs = polls @ [Get_temperature t] \<and> temp - tol \<le> t \<and> t \<le> temp + tol"
proof (induction ts arbitrary: first evs ts')
  case Nil
  then show ?case by simp
next
  case (Cons t ts)
  show ?case
  proof (cases "temp - tol \<le> t \<and> t \<le> temp + tol")
    case True
    with Cons.prems have "evs = [] @ [Get_temperature t]" by auto
    with True show ?thesis by blast
  next
    case False
    with Cons.prems obtain evs2 where
      r: "wait_within_tolerance temp tol False ts = Some (evs2, ts')"
      and e: "evs = [Get_temperature t, Update_status (Temperature_not_T temp) first, Sleep 1] @ evs2"
      by (auto split: option.splits)
    from Cons.IH[OF r] obtain polls t2 where
      "evs2 = polls @ [Get_temperature t2]" "temp - tol \<le> t2" "t2 \<le> temp + tol" by blast
    with e have "evs = ([Get_temperature t, Update_status (Temperature_not_T temp) first, Sleep 1]
       @ polls) @ [Get_temperature t2]" by simp
    with \<open>temp - tol \<le> t2\<close> \<open>t2 \<le> temp + tol\<close> show ?thesis by blast
  qed
qed

lemma settle_quiet:
  "settle stg temp ts = Some (evs, ts') \<Longrightarrow> heating_targets evs = [] \<and> measured_points evs = []"
  by (auto simp: settle_def dest: wait_within_tolerance_quiet split: if_splits option.splits)

lemma hold_for_quiet:
  "heating_targets (hold_for temp remaining first) = []
   \<and> measured_points (hold_for temp remaining first) = []"
proof (induction temp remaining first rule: hold_for.induct)
  case (1 temp remaining first_iter)
  show ?case
  proof (cases "0 < remaining")
    case True
    with 1 show ?thesis by (subst (1 2) hold_for.simps) simp
  next
    case False
    then show ?thesis by (subst (1 2) hold_for.simps) simp
  qed
qed

lemma wait_sweep_delay_quiet:
  "heating_targets (wait_sweep_delay delay) = [] \<and> measured_points (wait_sweep_delay delay) = []"
proof -
  have "heating_targets (concat (map (\<lambda>s. [Update_status (Waiting_for_next_sweep (delay - int s)) (s = 0), Sleep 1]) xs)) = []
     \<and> measured_points (concat (map (\<lambda>s. [Update_status (Waiting_for_next_sweep (delay - int s)) (s = 0), Sleep 1]) xs)) = []" for xs
    by (induction xs) simp_all
  then show ?thesis by (simp add: wait_sweep_delay_def)
qed

lemma sweeps_at_targets:
  "sweeps_at r temp k nums ts ps = Some (evs, ts', ps') \<Longrightarrow>
     heating_targets evs = [] \<and> measured_points evs = replicate (length nums) k"
proof (induction r temp k nums ts ps arbitrary: evs ts' ps' rule: sweeps_at.induct)
  case (4 r temp k sweep_num rest tcell ts p ps)
  from "4.prems" obtain evs2 where
    r: "sweeps_at r temp k rest ts ps = Some (evs2, ts', ps')"
    and e: "evs = [Update_measurement_info temp (k + 1) (sweep_num + 1)]
                @ (if sweep_num \<noteq> 0 then wait_sweep_delay (sweep_delay r) else [])
                @ [Get_temperature tcell,
                   Update_status (Beginning_sweep (int sweep_num + 1) (num_sweeps_at_T r)) True,
                   Measure_impedance sweep_num tcell k, Sleep 1,
                   Update_status (Performing_sweep (int sweep_num + 1) (num_sweeps_at_T r)) True]
                @ replicate p (Sleep 1) @ evs2"
    by (auto split: option.splits)
  from "4.IH"[OF r] show ?case
    unfolding e
    by (simp add: heating_targets_append measured_points_append wait_sweep_delay_quiet)
qed simp_all

lemma temperature_point_targets:
  assumes "temperature_point stg r k temp hw = Some (evs, hw')"
  shows "(\<exists>n. heating_targets evs = replicate (Suc n) temp)
       \<and> measured_points evs = replicate (nat (num_sweeps_at_T r)) k"
proof -
  from assms obtain reach hs ts settling ts1 sweeping ts2 ps where
    h: "heat_until_reached temp (rate r) (min_holdtime r) True (holdtimes hw) (temperatures hw)
          = Some (reach, hs, ts)"
    and s: "settle stg temp ts = Some (settling, ts1)"
    and w: "(if num_sweeps_at_T r \<noteq> 0
             then sweeps_at r temp k [0..<nat (num_sweeps_at_T r)] ts1 (sweep_polls hw)
             else Some ([Update_status No_sweeps True], ts1, sweep_polls hw))
            = Some (sweeping, ts2, ps)"
    and e: "evs = [Update_measurement_info temp (k + 1) 0] @ reach @ settling
                  @ hold_for temp (min_holdtime r) True @ sweeping
                  @ [Toggle_hold, Update_measurement_info temp (k + 1) 0]"
    by (auto simp: temperature_point_def split: option.splits)
  from heat_until_reached_targets[OF h] obtain n where
    hr: "heating_targets reach = replicate (Suc n) temp" "measured_points reach = []" by blast
  note sq = settle_quiet[OF s]
  have sw: "heating_targets sweeping = []
      \<and> measured_points sweeping = replicate (nat (num_sweeps_at_T r)) k"
  proof (cases "num_sweeps_at_T r = 0")
    case True
    with w show ?thesis by auto
  next
    case False
    with w have "sweeps_at r temp k [0..<nat (num_sweeps_at_T r)] ts1 (sweep_polls hw)
       = Some (sweeping, ts2, ps)" by simp
    from sweeps_at_targets[OF this] show ?thesis by simp
  qed
  have "heating_targets evs = replicate (Suc n) temp"
    unfolding e using hr sq sw hold_for_quiet[of temp "min_holdtime r" True]
    by (simp add: heating_targets_append)
  moreover have "measured_points evs = replicate (nat (num_sweeps_at_T r)) k"
    unfolding e using hr sq sw hold_for_quiet[of temp "min_holdtime r" True]
    by (simp add: measured_points_append)
  ultimately show ?thesis by blast
qed

lemma ramp_points_targets:
  "ramp_points stg r k ts hw = Some (evs, hw') \<Longrightarrow>
     (\<exists>ns. length ns = length ts
          \<and> heating_targets evs = concat (map2 (\<lambda>t n. replicate (Suc n) t) ts ns))
     \<and> measured_points evs
         = concat (map (replicate (nat (num_sweeps_at_T r))) [k..<k + length ts])"
proof (induction ts arbitrary: k hw evs hw')
  case Nil
  then show ?case by simp
next
  case (Cons t ts)
  from Cons.prems obtain e1 hw1 e2 where
    p: "temperature_point stg r k t hw = Some (e1, hw1)"
    and q: "ramp_points stg r (k + 1) ts hw1 = Some (e2, hw')"
    and e: "evs = e1 @ e2"
    by (auto split: option.splits)
  from temperature_point_targets[OF p] obtain n where
    a: "heating_targets e1 = replicate (Suc n) t"
       "measured_points e1 = replicate (nat (num_sweeps_at_T r)) k" by blast
  from Cons.IH[OF q] obtain ns where
    b: "length ns = length ts"
       "heating_targets e2 = concat (map2 (\<lambda>t n. replicate (Suc n) t) ts ns)"
       "measured_points e2 = concat (map (replicate (nat (num_sweeps_at_T r))) [k + 1..<k + 1 + length ts])"
    by blast
  have first: "length (n # ns) = length (t # ts)
      \<and> heating_targets evs = concat (map2 (\<lambda>t n. replicate (Suc n) t) (t # ts) (n # ns))"
    using a b by (simp add: e heating_targets_append)
  have u: "[k..<k + length (t # ts)] = k # [k + 1..<k + 1 + length ts]"
  proof -
    have "k < k + length (t # ts)" by simp
    then have "[k..<k + length (t # ts)] = k # [Suc k..<k + length (t # ts)]"
      by (rule upt_conv_Cons)
    moreover have "k + length (t # ts) = k + 1 + length ts" by simp
    ultimately show ?thesis by (simp only: Suc_eq_plus1)
  qed
  have "measured_points evs
      = concat (map (replicate (nat (num_sweeps_at_T r))) [k..<k + length (t # ts)])"
    unfolding u e measured_points_append a(2) b(3) by simp
  with first show ?case by blast
qed

section \<open>The first set-point of a ramp\<close>

text \<open>The ramp from 30 to 60 in steps of 10, entered with \<open>n\<close> and with \<open>y\<close>.\<close>

lemma Ramp_example_n:
  "Ramp 1 30 60 5 10 2 50 (1 / 10) 10000000 10 1 5 ''n''
     = Inr \<lparr> num = 1, interval = 10, start_temp = 30, end_temp = 60, rate = 5,
             min_holdtime = 2, voltage = 50, fmin = 1 / 10, fmax = 10000000, ppd = 10,
             num_sweeps_at_T = 1, sweep_delay = 5, scan_at_first_T = Some False, up = True,
             num_intervals = 3, temps = [40, 50, 60], numpoints = 80,
             frange = rev (logspace (- 1) 7 80) \<rparr>"
  by (simp add: Ramp_def Let_def ramp_up_def ramp_num_intervals_def py_int_def ramp_interval_def
      ramp_scan_def ramp_all_temps_def py_round2_def numpoints_example ramp_frange_def upt_rec
      ramp_rate_def log10_example_hi log10_example_lo)

lemma Ramp_example_y:
  "Ramp 1 30 60 5 10 2 50 (1 / 10) 10000000 10 1 5 ''y''
     = Inr \<lparr> num = 1, interval = 10, start_temp = 30, end_temp = 60, rate = 5,
             min_holdtime = 2, voltage = 50, fmin = 1 / 10, fmax = 10000000, ppd = 10,
             num_sweeps_at_T = 1, sweep_delay = 5, scan_at_first_T = Some True, up = True,
             num_intervals = 3, temps = [30, 40, 50, 60], numpoints = 80,
             frange = rev (logspace (- 1) 7 80) \<rparr>"
  by (simp add: Ramp_def Let_def ramp_up_def ramp_num_intervals_def py_int_def ramp_interval_def
      ramp_scan_def ramp_all_temps_def py_round2_def numpoints_example ramp_frange_def upt_rec
      ramp_rate_def log10_example_hi log10_example_lo)

text \<open>The answer to "scan at first T" changes nothing but the flag and the list \<open>temps\<close>.\<close>

lemma Ramp_scan_only:
  assumes "Ramp n s e r iv h v flo fhi p sw d ''y'' = Inr ry"
    and "Ramp n s e r iv h v flo fhi p sw d ''n'' = Inr rn"
  shows "temps ry = ramp_all_temps s (interval ry) (num_intervals ry)"
    and "temps rn = tl (temps ry)"
    and "num_sweeps_at_T rn = sw"
  using assms
  by (auto simp: Ramp_def Let_def ramp_scan_def ramp_all_temps_def upt_rec[of 0]
      split: sum.splits if_splits list.splits)

text \<open>
  Claim C1, as the code has it. A ramp entered with \<open>n\<close> has the list \<open>temps\<close> of the
  same ramp entered with \<open>y\<close> without its first element. \<open>ramp_and_measure\<close> walks
  that one list: its heating commands go to the remaining set-points, in order and one
  or more times each, and its sweeps are started at each remaining set-point. There is
  no second list for the heating path, and no heating command goes to the dropped point.
\<close>

theorem scan_at_first_T_drops_first_point:
  assumes "Ramp n s e r iv h v flo fhi p sw d ''y'' = Inr ry"
    and "Ramp n s e r iv h v flo fhi p sw d ''n'' = Inr rn"
    and "ramp_and_measure page rn stg hw = Some (page', hw')"
  shows "temps ry = hd (temps ry) # temps rn
       \<and> (\<exists>evs ns. calls page' = calls page @ evs
             \<and> length ns = length (temps rn)
             \<and> heating_targets evs = concat (map2 (\<lambda>t k. replicate (Suc k) t) (temps rn) ns)
             \<and> measured_points evs
                 = concat (map (replicate (nat sw)) [0..<length (temps rn)]))"
proof -
  note sc = Ramp_scan_only[OF assms(1,2)]
  have "temps ry \<noteq> []" by (simp add: sc(1) ramp_all_temps_def)
  then have a: "temps ry = hd (temps ry) # temps rn" by (simp add: sc(2))
  from assms(3) obtain evs where
    rp: "ramp_points stg rn 0 (temps rn) hw = Some (evs, hw')"
    and pg: "page' = page\<lparr> calls := calls page @ evs \<rparr>"
    by (auto simp: ramp_and_measure_def split: option.splits)
  from ramp_points_targets[OF rp] obtain ns where
    "length ns = length (temps rn)"
    "heating_targets evs = concat (map2 (\<lambda>t k. replicate (Suc k) t) (temps rn) ns)"
    "measured_points evs = concat (map (replicate (nat sw)) [0..<length (temps rn)])"
    by (auto simp: sc(3))
  moreover have "calls page' = calls page @ evs" by (simp add: pg)
  ultimately show ?thesis using a by blast
qed

text \<open>The run of that ramp on the virtual stage.\<close>

lemma three_point_run:
  "map_option (\<lambda>(pg, hw). (heating_targets (calls pg), measured_points (calls pg), hw))
     (ramp_and_measure initial_page
     \<lparr> num = 1, interval = 10, start_temp = 30, end_temp = 60, rate = 5,
             min_holdtime = 2, voltage = 50, fmin = 1 / 10, fmax = 10000000, ppd = 10,
             num_sweeps_at_T = 1, sweep_delay = 5, scan_at_first_T = Some False, up = True,
             num_intervals = 3, temps = [40, 50, 60], numpoints = 80,
             frange = rev (logspace (- 1) 7 80) \<rparr> virtual_stage three_point_script)
   = Some ([40, 50, 60], [0, 1, 2], \<lparr> holdtimes = [], temperatures = [], sweep_polls = [] \<rparr>)"
  by (simp add: ramp_and_measure_def temperature_point_def settle_def hold_for.simps
      wait_sweep_delay_def virtual_stage_def three_point_script_def initial_page_def upt_rec
      heating_targets_append measured_points_append)

text \<open>The theorem at the ramp from 30 to 60: the stage is sent to 40, 50 and 60.\<close>

theorem scan_at_first_T_drops_first_point_witness:
  "\<exists>ry rn page' hw'.
     Ramp 1 30 60 5 10 2 50 (1 / 10) 10000000 10 1 5 ''y'' = Inr ry
     \<and> Ramp 1 30 60 5 10 2 50 (1 / 10) 10000000 10 1 5 ''n'' = Inr rn
     \<and> ramp_and_measure initial_page rn virtual_stage three_point_script = Some (page', hw')
     \<and> temps ry = [30, 40, 50, 60] \<and> temps ry = hd (temps ry) # temps rn
     \<and> heating_targets (calls page') = [40, 50, 60]
     \<and> measured_points (calls page') = [0, 1, 2]"
proof -
  define ry where "ry = \<lparr> num = 1, interval = 10, start_temp = 30, end_temp = 60, rate = 5,
             min_holdtime = 2, voltage = 50, fmin = 1 / 10, fmax = 10000000, ppd = 10,
             num_sweeps_at_T = 1, sweep_delay = 5, scan_at_first_T = Some True, up = True,
             num_intervals = 3, temps = [30, 40, 50, 60], numpoints = 80,
             frange = rev (logspace (- 1) 7 80) \<rparr>"
  define rn where "rn = \<lparr> num = 1, interval = 10, start_temp = 30, end_temp = 60, rate = 5,
             min_holdtime = 2, voltage = 50, fmin = 1 / 10, fmax = 10000000, ppd = 10,
             num_sweeps_at_T = 1, sweep_delay = 5, scan_at_first_T = Some False, up = True,
             num_intervals = 3, temps = [40, 50, 60], numpoints = 80,
             frange = rev (logspace (- 1) 7 80) \<rparr>"
  have y: "Ramp 1 30 60 5 10 2 50 (1 / 10) 10000000 10 1 5 ''y'' = Inr ry"
    unfolding ry_def by (rule Ramp_example_y)
  have n: "Ramp 1 30 60 5 10 2 50 (1 / 10) 10000000 10 1 5 ''n'' = Inr rn"
    unfolding rn_def by (rule Ramp_example_n)
  obtain page' hw' where
    run: "ramp_and_measure initial_page rn virtual_stage three_point_script = Some (page', hw')"
    and obs: "heating_targets (calls page') = [40, 50, 60]"
             "measured_points (calls page') = [0, 1, 2]"
    using three_point_run unfolding rn_def by (auto simp: map_option_case split: option.splits)
  from scan_at_first_T_drops_first_point[OF y n run]
  have "temps ry = hd (temps ry) # temps rn" by blast
  moreover have "temps ry = [30, 40, 50, 60]" by (simp add: ry_def)
  ultimately show ?thesis using y n run obs by blast
qed

text \<open>
  The claim as it is worded says that the stage still heats to the dropped first point.
  In the run above no heating command has the target 30.
\<close>

theorem first_point_not_heated_counterexample:
  "(case Ramp 1 30 60 5 10 2 50 (1 / 10) 10000000 10 1 5 ''n'' of
      Inl err \<Rightarrow> None
    | Inr rn \<Rightarrow>
        map_option (\<lambda>(pg, hw). (heating_targets (calls pg), 30 \<in> set (heating_targets (calls pg))))
          (ramp_and_measure initial_page rn virtual_stage three_point_script))
   = Some ([40, 50, 60], False)"
  using three_point_run
  by (auto simp: Ramp_example_n map_option_case split: option.splits)

section \<open>Reaching, settling and holding at a set-point\<close>

lemma temperature_readings_append:
  "temperature_readings (a @ b) = temperature_readings a @ temperature_readings b"
  by (induction a rule: temperature_readings.induct) simp_all

lemma wait_while_heating_no_readings:
  "wait_while_heating hs = Some (evs, rest) \<Longrightarrow> temperature_readings evs = []"
  by (induction hs arbitrary: evs rest) (auto split: if_splits option.splits)

lemma heat_until_reached_shape:
  "heat_until_reached temp rt ht first hs ts = Some (evs, hs', ts') \<Longrightarrow>
     \<exists>pre h t. evs = pre @ [Get_holdtime_remaining h, Get_temperature t]
        \<and> h \<noteq> 0 \<and> temp - 1 \<le> t \<and> t \<le> temp + 1
        \<and> heating_targets pre = replicate (Suc (length (temperature_readings pre))) temp
        \<and> (\<forall>u\<in>set (temperature_readings pre). u < temp - 1 \<or> temp + 1 < u)"
proof (induction ts arbitrary: first hs evs hs' ts')
  case Nil
  then show ?case by simp
next
  case (Cons t ts)
  from Cons.prems obtain w hs1 where w: "wait_while_heating hs = Some (w, hs1)"
    by (auto split: option.splits)
  from wait_while_heating_last[OF w] obtain pre h
    where pre: "w = pre @ [Get_holdtime_remaining h]" "h \<noteq> 0" by blast
  from wait_while_heating_quiet[OF w] wait_while_heating_no_readings[OF w] pre(1)
  have q: "heating_targets pre = []" "temperature_readings pre = []"
    "heating_targets w = []" "temperature_readings w = []"
    by (simp_all add: heating_targets_append temperature_readings_append)
  let ?start = "[Start_heating temp rt ht, Sleep 3,
        Update_status (Heating_cooling_to temp) first]"
  show ?case
  proof (cases "temp - 1 \<le> t \<and> t \<le> temp + 1")
    case True
    with Cons.prems w pre have "evs = (?start @ pre)
        @ [Get_holdtime_remaining h, Get_temperature t]"
      by (auto simp: Let_def)
    moreover have "heating_targets (?start @ pre)
        = replicate (Suc (length (temperature_readings (?start @ pre)))) temp"
      using q by (simp add: heating_targets_append temperature_readings_append)
    moreover have "\<forall>u\<in>set (temperature_readings (?start @ pre)). u < temp - 1 \<or> temp + 1 < u"
      using q by (simp add: temperature_readings_append)
    ultimately show ?thesis using True pre(2) by blast
  next
    case False
    with Cons.prems w obtain evs2 where
      r: "heat_until_reached temp rt ht False hs1 ts = Some (evs2, hs', ts')"
      and e: "evs = (?start @ w @ [Get_temperature t]) @ evs2"
      by (auto simp: Let_def split: option.splits)
    from Cons.IH[OF r] obtain pre2 h2 t2 where i:
      "evs2 = pre2 @ [Get_holdtime_remaining h2, Get_temperature t2]"
      "h2 \<noteq> 0" "temp - 1 \<le> t2" "t2 \<le> temp + 1"
      "heating_targets pre2 = replicate (Suc (length (temperature_readings pre2))) temp"
      "\<forall>u\<in>set (temperature_readings pre2). u < temp - 1 \<or> temp + 1 < u" by blast
    let ?pre = "(?start @ w @ [Get_temperature t]) @ pre2"
    from e i(1) have "evs = ?pre @ [Get_holdtime_remaining h2, Get_temperature t2]" by simp
    moreover have "heating_targets ?pre = replicate (Suc (length (temperature_readings ?pre))) temp"
      using q i(5) by (simp add: heating_targets_append temperature_readings_append)
    moreover have "\<forall>u\<in>set (temperature_readings ?pre). u < temp - 1 \<or> temp + 1 < u"
      using q i(6) False by (auto simp: temperature_readings_append)
    ultimately show ?thesis using i(2-4) by blast
  qed
qed

lemma settle_shape:
  assumes "settle stg temp ts = Some (evs, ts')"
  shows "if is_virtual stg then evs = [Toggle_hold]
         else (\<exists>polls t. evs = [Toggle_hold, Update_tolerance temp] @ polls @ [Get_temperature t]
                 \<and> Toggle_hold \<notin> set polls
                 \<and> temp - tolerance_for stg temp \<le> t \<and> t \<le> temp + tolerance_for stg temp)"
proof (cases "is_virtual stg")
  case True
  with assms show ?thesis by (simp add: settle_def)
next
  case False
  with assms obtain w where
    w: "wait_within_tolerance temp (tolerance_for stg temp) True ts = Some (w, ts')"
    and e: "evs = [Toggle_hold, Update_tolerance temp] @ w"
    by (auto simp: settle_def split: option.splits)
  from wait_within_tolerance_last[OF w] obtain polls t where
    p: "w = polls @ [Get_temperature t]"
      "temp - tolerance_for stg temp \<le> t" "t \<le> temp + tolerance_for stg temp" by blast
  from wait_within_tolerance_quiet[OF w] p(1) have "Toggle_hold \<notin> set polls" by simp
  with e p False show ?thesis by auto
qed

text \<open>For every number of retries there is a script on which the loop makes that many.\<close>

lemma heat_until_reached_retries:
  "\<exists>evs. heat_until_reached temp rt ht first (replicate (Suc n) 1)
            (replicate n (temp + 2) @ [temp]) = Some (evs, [], [])
         \<and> length (heating_targets evs) = Suc n"
proof (induction n arbitrary: first)
  case 0
  show ?case by (simp add: Let_def)
next
  case (Suc n)
  from Suc[of False] obtain evs where
    "heat_until_reached temp rt ht False (replicate (Suc n) 1)
            (replicate n (temp + 2) @ [temp]) = Some (evs, [], [])"
    "length (heating_targets evs) = Suc n" by blast
  then show ?case by (simp add: Let_def heating_targets_append)
qed

text \<open>
  Claim C8, as the code has it. The calls of one temperature point are: the heating
  turns; then a hold time different from 0.0 and a temperature within one degree of the
  set-point; then \<open>toggle_hold\<close>; then, on a stage that is not the virtual stage,
  \<open>update_tolerance\<close> and temperature polls that end with a reading within the tolerance;
  then the dwell of \<open>min_holdtime\<close> seconds. On the virtual stage the dwell follows
  \<open>toggle_hold\<close> at once. Every earlier temperature reading of the heating turns was
  outside the band of one degree and was followed by one more heating command, and no
  number of such turns is the last possible one.
\<close>

theorem dwell_after_reaching_and_settling:
  assumes "temperature_point stg r k temp hw = Some (evs, hw')"
  shows "(\<exists>reach h t settling rest.
           evs = Update_measurement_info temp (k + 1) 0 # reach
                 @ [Get_holdtime_remaining h, Get_temperature t, Toggle_hold] @ settling
                 @ hold_for temp (min_holdtime r) True @ rest
         \<and> h \<noteq> 0 \<and> temp - 1 \<le> t \<and> t \<le> temp + 1
         \<and> heating_targets reach = replicate (Suc (length (temperature_readings reach))) temp
         \<and> (\<forall>u\<in>set (temperature_readings reach). u < temp - 1 \<or> temp + 1 < u)
         \<and> (if is_virtual stg then settling = []
            else (\<exists>polls t'. settling = Update_tolerance temp # polls @ [Get_temperature t']
                    \<and> Toggle_hold \<notin> set polls
                    \<and> temp - tolerance_for stg temp \<le> t'
                    \<and> t' \<le> temp + tolerance_for stg temp)))
       \<and> (\<forall>n. \<exists>hs ts reach'.
             heat_until_reached temp (rate r) (min_holdtime r) True hs ts = Some (reach', [], [])
             \<and> length (heating_targets reach') = Suc n)"
proof -
  from assms obtain reach hs ts settling ts1 sweeping ts2 ps where
    h: "heat_until_reached temp (rate r) (min_holdtime r) True (holdtimes hw) (temperatures hw)
          = Some (reach, hs, ts)"
    and s: "settle stg temp ts = Some (settling, ts1)"
    and e: "evs = [Update_measurement_info temp (k + 1) 0] @ reach @ settling
                  @ hold_for temp (min_holdtime r) True @ sweeping
                  @ [Toggle_hold, Update_measurement_info temp (k + 1) 0]"
    by (auto simp: temperature_point_def split: option.splits)
  from heat_until_reached_shape[OF h] obtain pre hr t where
    r: "reach = pre @ [Get_holdtime_remaining hr, Get_temperature t]"
       "hr \<noteq> 0" "temp - 1 \<le> t" "t \<le> temp + 1"
       "heating_targets pre = replicate (Suc (length (temperature_readings pre))) temp"
       "\<forall>u\<in>set (temperature_readings pre). u < temp - 1 \<or> temp + 1 < u" by blast
  note sh = settle_shape[OF s]
  let ?rest = "sweeping @ [Toggle_hold, Update_measurement_info temp (k + 1) 0]"
  have first: "\<exists>reach h t settling rest.
           evs = Update_measurement_info temp (k + 1) 0 # reach
                 @ [Get_holdtime_remaining h, Get_temperature t, Toggle_hold] @ settling
                 @ hold_for temp (min_holdtime r) True @ rest
         \<and> h \<noteq> 0 \<and> temp - 1 \<le> t \<and> t \<le> temp + 1
         \<and> heating_targets reach = replicate (Suc (length (temperature_readings reach))) temp
         \<and> (\<forall>u\<in>set (temperature_readings reach). u < temp - 1 \<or> temp + 1 < u)
         \<and> (if is_virtual stg then settling = []
            else (\<exists>polls t'. settling = Update_tolerance temp # polls @ [Get_temperature t']
                    \<and> Toggle_hold \<notin> set polls
                    \<and> temp - tolerance_for stg temp \<le> t'
                    \<and> t' \<le> temp + tolerance_for stg temp))"
  proof (cases "is_virtual stg")
    case True
    with sh have "settling = [Toggle_hold]" by simp
    with e r(1) have "evs = Update_measurement_info temp (k + 1) 0 # pre
                 @ [Get_holdtime_remaining hr, Get_temperature t, Toggle_hold] @ []
                 @ hold_for temp (min_holdtime r) True @ ?rest"
      by simp
    with r(2-6) True show ?thesis
      by (intro exI[of _ pre] exI[of _ hr] exI[of _ t] exI[of _ "[]"] exI[of _ ?rest]) simp
  next
    case False
    with sh obtain polls t' where
      p: "settling = [Toggle_hold, Update_tolerance temp] @ polls @ [Get_temperature t']"
         "Toggle_hold \<notin> set polls"
         "temp - tolerance_for stg temp \<le> t'" "t' \<le> temp + tolerance_for stg temp"
      by auto
    with e r(1) have "evs = Update_measurement_info temp (k + 1) 0 # pre
                 @ [Get_holdtime_remaining hr, Get_temperature t, Toggle_hold]
                 @ (Update_tolerance temp # polls @ [Get_temperature t'])
                 @ hold_for temp (min_holdtime r) True @ ?rest"
      by simp
    with r(2-6) p(2-4) False show ?thesis
      by (intro exI[of _ pre] exI[of _ hr] exI[of _ t]
          exI[of _ "Update_tolerance temp # polls @ [Get_temperature t']"]
          exI[of _ ?rest]) auto
  qed
  have second: "\<forall>n. \<exists>hs ts reach'.
             heat_until_reached temp (rate r) (min_holdtime r) True hs ts = Some (reach', [], [])
             \<and> length (heating_targets reach') = Suc n"
    using heat_until_reached_retries[of temp "rate r" "min_holdtime r" True] by blast
  from first second show ?thesis by blast
qed

lemma example_ramp_built:
  "Ramp 1 30 60 5 10 2 50 (1 / 10) 10000000 10 1 5 ''n'' = Inr example_ramp"
  unfolding example_ramp_def by (rule Ramp_example_n)

text \<open>One set-point of 40 degrees on the stage with a tolerance.\<close>

lemma settling_run:
  "temperature_point hardware_stage example_ramp 0 40 settling_script
     = Some ([Update_measurement_info 40 1 0,
              Start_heating 40 5 2, Sleep 3, Update_status (Heating_cooling_to 40) True,
              Get_holdtime_remaining 0, Sleep 1, Get_holdtime_remaining 3,
              Get_temperature (81 / 2),
              Toggle_hold, Update_tolerance 40,
              Get_temperature (403 / 10), Update_status (Temperature_not_T 40) True, Sleep 1,
              Get_temperature (801 / 20),
              Update_status (Holding_at 40 2) True, Sleep 1,
              Update_status (Holding_at 40 1) False, Sleep 1,
              Update_measurement_info 40 1 1,
              Get_temperature 40, Update_status (Beginning_sweep 1 1) True,
              Measure_impedance 0 40 0, Sleep 1, Update_status (Performing_sweep 1 1) True,
              Sleep 1, Sleep 1,
              Toggle_hold, Update_measurement_info 40 1 0],
             \<lparr> holdtimes = [], temperatures = [], sweep_polls = [] \<rparr>)"
  by (simp add: temperature_point_def settle_def hold_for.simps wait_sweep_delay_def
      hardware_stage_def settling_script_def example_ramp_def upt_rec numeral_2_eq_2)

text \<open>The theorem at that run: the dwell of two seconds starts after the settling polls.\<close>

theorem dwell_after_reaching_and_settling_witness:
  "\<exists>evs hw' reach h t polls t' rest.
     temperature_point hardware_stage example_ramp 0 40 settling_script = Some (evs, hw')
     \<and> evs = Update_measurement_info 40 1 0 # reach
             @ [Get_holdtime_remaining h, Get_temperature t, Toggle_hold]
             @ (Update_tolerance 40 # polls @ [Get_temperature t'])
             @ hold_for 40 2 True @ rest
     \<and> h \<noteq> 0 \<and> 39 \<le> t \<and> t \<le> 41 \<and> 399 / 10 \<le> t' \<and> t' \<le> 401 / 10"
proof -
  obtain evs hw' where
    run: "temperature_point hardware_stage example_ramp 0 40 settling_script = Some (evs, hw')"
    using settling_run by blast
  from dwell_after_reaching_and_settling[OF run]
  obtain reach h t settling rest where
    a: "evs = Update_measurement_info 40 (0 + 1) 0 # reach
                 @ [Get_holdtime_remaining h, Get_temperature t, Toggle_hold] @ settling
                 @ hold_for 40 (min_holdtime example_ramp) True @ rest"
      "h \<noteq> 0" "40 - 1 \<le> t" "t \<le> 40 + 1"
    and b: "if is_virtual hardware_stage then settling = []
            else (\<exists>polls t'. settling = Update_tolerance 40 # polls @ [Get_temperature t']
                    \<and> Toggle_hold \<notin> set polls
                    \<and> 40 - tolerance_for hardware_stage 40 \<le> t'
                    \<and> t' \<le> 40 + tolerance_for hardware_stage 40)"
    by blast
  from b obtain polls t' where
    c: "settling = Update_tolerance 40 # polls @ [Get_temperature t']"
       "399 / 10 \<le> t'" "t' \<le> 401 / 10"
    by (auto simp: hardware_stage_def)
  have "min_holdtime example_ramp = 2" by (simp add: example_ramp_def)
  with a(1) c(1) have e: "evs = Update_measurement_info 40 1 0 # reach
             @ [Get_holdtime_remaining h, Get_temperature t, Toggle_hold]
             @ (Update_tolerance 40 # polls @ [Get_temperature t'])
             @ hold_for 40 2 True @ rest" by simp
  have t: "39 \<le> t" "t \<le> 41" using a(3,4) by simp_all
  from run e a(2) t c(2,3) show ?thesis by blast
qed

text \<open>
  The claim as it is worded asks for the temperature polls after \<open>toggle_hold\<close> at every
  temperature point. On the virtual stage the source skips them: in this run the first
  \<open>Holding\<close> status follows \<open>Toggle_hold\<close> with no call in between.
\<close>

theorem virtual_stage_skips_settling_counterexample:
  "temperature_point virtual_stage example_ramp 0 40 one_point_script
     = Some ([Update_measurement_info 40 1 0,
              Start_heating 40 5 2, Sleep 3, Update_status (Heating_cooling_to 40) True,
              Get_holdtime_remaining 0, Sleep 1, Get_holdtime_remaining 3,
              Get_temperature (81 / 2),
              Toggle_hold,
              Update_status (Holding_at 40 2) True, Sleep 1,
              Update_status (Holding_at 40 1) False, Sleep 1,
              Update_measurement_info 40 1 1,
              Get_temperature (201 / 5), Update_status (Beginning_sweep 1 1) True,
              Measure_impedance 0 (201 / 5) 0, Sleep 1, Update_status (Performing_sweep 1 1) True,
              Sleep 1, Sleep 1,
              Toggle_hold, Update_measurement_info 40 1 0],
             \<lparr> holdtimes = [], temperatures = [], sweep_polls = [] \<rparr>)"
  by (simp add: temperature_point_def settle_def hold_for.simps wait_sweep_delay_def
      virtual_stage_def one_point_script_def example_ramp_def upt_rec numeral_2_eq_2)

section \<open>Cancellation\<close>

lemma str_nat_nonempty: "str_nat n \<noteq> []"
  by (subst str_nat.simps) simp

lemma str_timedelta_nonempty: "str_timedelta seconds \<noteq> []"
  by (simp add: str_timedelta_def Let_def str_nat_nonempty)

text \<open>\<open>ramp_and_measure\<close> only adds to the record of calls.\<close>

lemma ramp_and_measure_fields:
  assumes "ramp_and_measure page r stg hw = Some (page', hw')"
  shows "time_elapsed_text page' = time_elapsed_text page"
    and "details_complete page' = details_complete page"
    and "complete page' = complete page"
    and "stop_thread page' = stop_thread page"
    and "exited page' = exited page"
  using assms by (auto simp: ramp_and_measure_def split: option.splits)

lemma experiment_running_invariant:
  "experiment_running page \<Longrightarrow> time_elapsed_text page \<noteq> [] \<and> \<not> details_complete page"
proof (induction rule: experiment_running.induct)
  case started
  show ?case by (simp add: initial_page_def)
next
  case (sampled page seconds)
  then show ?case by (simp add: update_temperature_and_time_def str_timedelta_nonempty)
next
  case (ramp_done page r stg hw page' hw')
  from ramp_and_measure_fields(1,2)[OF ramp_done.hyps(2)] ramp_done.IH
  show ?case by simp
qed

lemma ramp_and_measure_ignores_stop_thread:
  "ramp_and_measure (page\<lparr> stop_thread := b \<rparr>) r stg hw
     = map_option (\<lambda>(pg, h). (pg\<lparr> stop_thread := b \<rparr>, h)) (ramp_and_measure page r stg hw)"
  by (simp add: ramp_and_measure_def split: option.splits)

text \<open>
  Claim C2, as the code has it. Cancellation is the work of \<open>stop_button_func\<close>, not of
  the control loops. Pressed at any time while the experiment runs, it stops the stage,
  writes the text of the elapsed-time entry, which is not empty, into \<open>details.json\<close>
  where \<open>complete\<close> is still false, sets \<open>stop_thread\<close> and ends the process, so that
  the remaining ramps are not run. The temperature thread is the only loop that reads
  \<open>stop_thread\<close>, once per turn, and it does nothing more once the flag is set;
  \<open>ramp_and_measure\<close> runs the same whether the flag is set or not.
\<close>

theorem stop_button_cancels:
  assumes "experiment_running page"
  shows "calls (stop_button_func page)
           = calls page @ [Stop_heating, Move_log, Update_status Stop_button_used True,
                           Sleep (1 / 2), Save_plot]
       \<and> details_time_elapsed (stop_button_func page) = Some (time_elapsed_text page)
       \<and> time_elapsed_text page \<noteq> []
       \<and> \<not> details_complete (stop_button_func page)
       \<and> stop_thread (stop_button_func page)
       \<and> exited (stop_button_func page)
       \<and> (\<forall>seconds. update_temperature_and_time seconds (stop_button_func page)
                       = stop_button_func page)
       \<and> (\<forall>b r stg hw.
             ramp_and_measure (page\<lparr> stop_thread := b \<rparr>) r stg hw
               = map_option (\<lambda>(pg, h). (pg\<lparr> stop_thread := b \<rparr>, h))
                   (ramp_and_measure page r stg hw))"
proof -
  from experiment_running_invariant[OF assms]
  have inv: "time_elapsed_text page \<noteq> []" "\<not> details_complete page" by simp_all
  have a: "calls (stop_button_func page)
           = calls page @ [Stop_heating, Move_log, Update_status Stop_button_used True,
                           Sleep (1 / 2), Save_plot]"
    by (simp add: stop_button_func_def)
  have b: "details_time_elapsed (stop_button_func page) = Some (time_elapsed_text page)"
    by (simp add: stop_button_func_def)
  have c: "\<not> details_complete (stop_button_func page)"
    using inv(2) by (simp add: stop_button_func_def)
  have d: "stop_thread (stop_button_func page)" "exited (stop_button_func page)"
    by (simp_all add: stop_button_func_def)
  have e: "\<forall>seconds. update_temperature_and_time seconds (stop_button_func page)
                       = stop_button_func page"
    using d(1) by (simp add: update_temperature_and_time_def)
  have f: "\<forall>b r stg hw.
             ramp_and_measure (page\<lparr> stop_thread := b \<rparr>) r stg hw
               = map_option (\<lambda>(pg, h). (pg\<lparr> stop_thread := b \<rparr>, h))
                   (ramp_and_measure page r stg hw)"
    by (intro allI) (rule ramp_and_measure_ignores_stop_thread)
  from a b inv(1) c d e f show ?thesis by blast
qed

lemma str_nat_examples:
  "str_nat 0 = ''0'' \<and> str_nat (Suc 0) = ''1'' \<and> str_nat 15 = ''15''"
  by code_simp

lemma str_timedelta_75: "str_timedelta 75 = ''0:01:15''"
  by (simp add: str_timedelta_def two_digits_def Let_def str_nat_examples)

text \<open>The stop button pressed 75 seconds into the experiment.\<close>

theorem stop_button_cancels_witness:
  "experiment_running
     (update_temperature_and_time 75
        (initial_page\<lparr> calls := [Update_status Experiment_starting True] \<rparr>))
   \<and> details_time_elapsed
       (stop_button_func
          (update_temperature_and_time 75
             (initial_page\<lparr> calls := [Update_status Experiment_starting True] \<rparr>)))
     = Some ''0:01:15''
   \<and> \<not> details_complete
       (stop_button_func
          (update_temperature_and_time 75
             (initial_page\<lparr> calls := [Update_status Experiment_starting True] \<rparr>)))"
proof -
  let ?page = "update_temperature_and_time 75
        (initial_page\<lparr> calls := [Update_status Experiment_starting True] \<rparr>)"
  have run: "experiment_running ?page"
    by (rule experiment_running.sampled, rule experiment_running.started)
  have "time_elapsed_text ?page = ''0:01:15''"
    by (simp add: update_temperature_and_time_def initial_page_def str_timedelta_75)
  with stop_button_cancels[OF run] run show ?thesis by simp
qed

text \<open>
  The claim as it is worded has the control loops look at the flag at every poll and end
  the run. Started with \<open>stop_thread\<close> set, \<open>ramp_and_measure\<close> heats to all three
  set-points, starts all three sweeps, never stops the stage and does not exit.
\<close>

theorem control_loop_ignores_stop_flag_counterexample:
  "map_option (\<lambda>(pg, hw). (stop_thread pg, exited pg, heating_targets (calls pg),
                            measured_points (calls pg), Stop_heating \<in> set (calls pg)))
     (ramp_and_measure (initial_page\<lparr> stop_thread := True \<rparr>) example_ramp virtual_stage
        three_point_script)
   = Some (True, False, [40, 50, 60], [0, 1, 2], False)"
  by (simp add: ramp_and_measure_def temperature_point_def settle_def hold_for.simps
      wait_sweep_delay_def virtual_stage_def three_point_script_def initial_page_def upt_rec
      example_ramp_def heating_targets_append measured_points_append)

section \<open>Rejection of invalid ramps\<close>






text \<open>The default entries themselves are accepted.\<close>

lemma input_ramp_default:
  "map_sum id (\<lambda>(rs, c, w). (map temps rs, c, w))
     (input_ramp virtual_stage_limits virtual_analyser_limits [] 0 default_entries)
   = Inr ([[30, 40, 50, 60]], 1, None)"
  by (simp add: input_ramp_def default_entries_def py_lower_def Ramp_def Let_def ramp_up_def
      ramp_num_intervals_def py_int_def ramp_interval_def ramp_scan_def numpoints_example
      ramp_frange_def ramp_rate_def sanity_check_def virtual_stage_limits_def
      virtual_analyser_limits_def frac_def ramp_all_temps_def py_round2_def upt_rec)


section \<open>The rows of a sweep\<close>








lemma first_four_fields_examples:
  "first_four_fields ''7,8,9,0,0'' = ''7,8,9,0''"
  "first_four_fields ''garbage'' = ''garbage''"
  by (simp_all add: first_four_fields_def)




section \<open>Retry after a failed read\<close>

text \<open>
  Claim C5, as the code has it. At each frequency: a call that returns a string, well
  formed or not, is written as the row and nothing else is asked; a call that raises is
  followed by one call at 1 Hz and one more call at the frequency, whose answer is the
  row; if that second call raises, or the call at 1 Hz raises, the exception ends the
  sweep and no further row is written.
\<close>

theorem probe_and_retry:
  "(m n f = Inr a \<longrightarrow>
      measure_frequencies m n (f # fs) out
        = measure_frequencies m (n + 1) fs (out @ [Text_row (first_four_fields a)]))
   \<and> (m n f = Inl e \<and> m (n + 1) 1 = Inr b \<and> m (n + 2) f = Inr a \<longrightarrow>
      measure_frequencies m n (f # fs) out
        = measure_frequencies m (n + 3) fs (out @ [Text_row (first_four_fields a)]))
   \<and> (m n f = Inl e \<and> m (n + 1) 1 = Inr b \<and> m (n + 2) f = Inl e2 \<longrightarrow>
      measure_frequencies m n (f # fs) out = (Some e2, n + 3, out))
   \<and> (m n f = Inl e \<and> m (n + 1) 1 = Inl e1 \<longrightarrow>
      measure_frequencies m n (f # fs) out = (Some e1, n + 2, out))"
  by simp

text \<open>
  Two frequencies. With the instrument whose first call raises, both rows are written
  after four calls; with the instrument that answers only the probe, the sweep ends
  after three calls with no row.
\<close>

theorem probe_and_retry_witness:
  "measure_frequencies flaky_instrument 0 [1000, 10] []
     = (None, 4, [Text_row ''7,8,9,0'', Text_row ''7,8,9,0''])
   \<and> measure_frequencies failing_instrument 0 [1000, 10] [] = (Some DeviceError, 3, [])"
proof -
  have a: "flaky_instrument 0 1000 = Inl DeviceError \<and> flaky_instrument (0 + 1) 1 = Inr ''7,8,9,0,0''
      \<and> flaky_instrument (0 + 2) 1000 = Inr ''7,8,9,0,0''"
    by (simp add: flaky_instrument_def)
  from probe_and_retry[of flaky_instrument 0 1000 "''7,8,9,0,0''" "[10]" "[]"
      DeviceError "''7,8,9,0,0''"] a
  have "measure_frequencies flaky_instrument 0 [1000, 10] []
      = measure_frequencies flaky_instrument (0 + 3) [10]
          ([] @ [Text_row (first_four_fields ''7,8,9,0,0'')])" by blast
  then have first: "measure_frequencies flaky_instrument 0 [1000, 10] []
     = (None, 4, [Text_row ''7,8,9,0'', Text_row ''7,8,9,0''])"
    by (simp add: flaky_instrument_def first_four_fields_examples)
  have b: "failing_instrument 0 1000 = Inl DeviceError
      \<and> failing_instrument (0 + 1) 1 = Inr ''7,8,9,0,0''
      \<and> failing_instrument (0 + 2) 1000 = Inl DeviceError"
    by (simp add: failing_instrument_def)
  from probe_and_retry[of failing_instrument 0 1000 _ "[10]" "[]"
      DeviceError "''7,8,9,0,0''" DeviceError] b
  have "measure_frequencies failing_instrument 0 [1000, 10] [] = (Some DeviceError, 0 + 3, [])"
    by blast
  with first show ?thesis by simp
qed

text \<open>
  The claim as it is worded also recovers a malformed read. A read that returns a
  malformed string does not raise: each frequency is asked once, there is no call at
  1 Hz and no retry, and the string is written as the row.
\<close>

theorem malformed_read_not_retried_counterexample:
  "measure_frequencies garbled_instrument 0 [1000, 10] []
     = (None, 2, [Text_row ''garbage'', Text_row ''garbage''])"
  by (simp add: garbled_instrument_def first_four_fields_examples)


section \<open>Division by a zero current\<close>

lemma make_result_zero_division:
  "make_result data = Inl ZeroDivisionError \<longleftrightarrow> 3 \<le> length data \<and> data ! 2 = 0"
  by (auto simp: make_result_def)

lemma get_result_rest: "get_result ps = Some (x, ps') \<Longrightarrow> set ps' \<subseteq> set ps"
  by (induction ps) (auto split: if_splits sum.splits)

lemma convert_buffer_no_zero_division: "convert_buffer b \<noteq> Inl ZeroDivisionError"
  by (induction b) (auto split: sum.splits if_splits)

lemma get_result_zero_division:
  "get_result ps = Some (Inl ZeroDivisionError, ps') \<Longrightarrow>
     \<exists>q\<in>set ps. \<exists>vs. convert_buffer (buffer q) = Inr vs \<and> 3 \<le> length vs \<and> vs ! 2 = 0"
proof (induction ps)
  case Nil
  then show ?case by simp
next
  case (Cons p ps)
  show ?case
  proof (cases "get_result ps = Some (Inl ZeroDivisionError, ps')")
    case True
    from Cons.IH[OF this] show ?thesis by auto
  next
    case False
    with Cons.prems obtain vs where
      "convert_buffer (buffer p) = Inr vs" "make_result vs = Inl ZeroDivisionError"
      using convert_buffer_no_zero_division[of "buffer p"]
      by (auto split: if_splits sum.splits)
    then show ?thesis by (auto simp: make_result_zero_division)
  qed
qed

lemma collect_results_zero_division:
  "collect_results fr i n ps out = Some (Some ZeroDivisionError, out', ps') \<Longrightarrow>
     \<exists>q\<in>set ps. \<exists>vs. convert_buffer (buffer q) = Inr vs \<and> 3 \<le> length vs \<and> vs ! 2 = 0"
proof (induction n arbitrary: i ps out)
  case 0
  then show ?case by simp
next
  case (Suc n)
  from Suc.prems have i: "\<not> length fr \<le> i" by (auto split: if_splits)
  with Suc.prems obtain x ps1 where g: "get_result ps = Some (x, ps1)"
    by (auto split: option.splits)
  show ?case
  proof (cases x)
    case (Inl e)
    with i g Suc.prems have "e = ZeroDivisionError" by simp
    with g Inl get_result_zero_division show ?thesis by blast
  next
    case (Inr y)
    obtain res idx where y: "y = (res, idx)" by (cases y)
    with i g Inr Suc.prems
    have "collect_results fr (i + 1) n ps1 (if idx = 1 then out @ [Result_row res] else out)
        = Some (Some ZeroDivisionError, out', ps')" by simp
    from Suc.IH[OF this] get_result_rest[OF g] show ?thesis by blast
  qed
qed

text \<open>
  Claim C10. A packet of process index 1 that converts to at least three numbers, the
  third of them (the current) zero, makes \<open>get_result\<close> raise ZeroDivisionError, and the
  main loop, which has no \<open>try\<close>, ends there with the file as it was. When no packet
  of the script has a zero current, neither \<open>get_result\<close> nor the main loop can end in
  ZeroDivisionError.
\<close>

theorem zero_current_aborts_sweep:
  "(get_data_error p = 0 \<and> process_index p = 1 \<and> convert_buffer (buffer p) = Inr data
      \<and> 3 \<le> length data \<and> data ! 2 = 0 \<longrightarrow>
      get_result (p # ps) = Some (Inl ZeroDivisionError, ps)
      \<and> (i < length fr \<longrightarrow>
           collect_results fr i (Suc n) (p # ps) out = Some (Some ZeroDivisionError, out, ps)))
   \<and> ((\<forall>q\<in>set qs. \<forall>vs. convert_buffer (buffer q) = Inr vs \<longrightarrow> 3 \<le> length vs
                         \<longrightarrow> vs ! 2 \<noteq> 0) \<longrightarrow>
      (\<forall>qs'. get_result qs \<noteq> Some (Inl ZeroDivisionError, qs'))
      \<and> (\<forall>out' qs'. collect_results fr i n qs out \<noteq> Some (Some ZeroDivisionError, out', qs')))"
proof -
  have a: "get_result (p # ps) = Some (Inl ZeroDivisionError, ps)
      \<and> (i < length fr \<longrightarrow>
           collect_results fr i (Suc n) (p # ps) out = Some (Some ZeroDivisionError, out, ps))"
    if h: "get_data_error p = 0" "process_index p = 1" "convert_buffer (buffer p) = Inr data"
      "3 \<le> length data" "data ! 2 = 0"
  proof -
    from h(4) have ne: "data \<noteq> []" by auto
    from h(4,5) have "make_result data = Inl ZeroDivisionError"
      by (simp add: make_result_zero_division)
    with h ne have g: "get_result (p # ps) = Some (Inl ZeroDivisionError, ps)" by simp
    then show ?thesis by simp
  qed
  have b: "(\<forall>qs'. get_result qs \<noteq> Some (Inl ZeroDivisionError, qs'))
      \<and> (\<forall>out' qs'. collect_results fr i n qs out \<noteq> Some (Some ZeroDivisionError, out', qs'))"
    if nz: "\<forall>q\<in>set qs. \<forall>vs. convert_buffer (buffer q) = Inr vs \<longrightarrow> 3 \<le> length vs
                         \<longrightarrow> vs ! 2 \<noteq> 0"
    using nz get_result_zero_division[of qs] collect_results_zero_division[of fr i n qs out]
    by blast
  from a b show ?thesis by blast
qed

text \<open>
  Three frequencies. With a zero current in the second packet the sweep stops after one
  row; with three good packets it writes three rows.
\<close>

theorem zero_current_aborts_sweep_witness:
  "collect_results [1000, 100, 10] 0 3 [good_packet, zero_current_packet, good_packet] []
     = Some (Some ZeroDivisionError, [Result_row [1000, 5 / 2, 1]], [good_packet])
   \<and> collect_results [1000, 100, 10] 0 3 [good_packet, good_packet, good_packet] []
     = Some (None, [Result_row [1000, 5 / 2, 1], Result_row [1000, 5 / 2, 1],
                    Result_row [1000, 5 / 2, 1]], [])"
proof -
  have g: "get_result (good_packet # ps) = Some (Inr ([1000, 5 / 2, 1], 1), ps)" for ps
    by (simp add: good_packet_def make_result_def py_round2_def Let_def)
  have z: "get_data_error zero_current_packet = 0 \<and> process_index zero_current_packet = 1
      \<and> convert_buffer (buffer zero_current_packet) = Inr [1000, 5, 0, 1]
      \<and> 3 \<le> length [1000, 5, 0, 1 :: real] \<and> [1000, 5, 0, 1 :: real] ! 2 = 0"
    by (simp add: zero_current_packet_def)
  from zero_current_aborts_sweep[of zero_current_packet "[1000, 5, 0, 1]" "[good_packet]"] z
  have zr: "get_result [zero_current_packet, good_packet]
      = Some (Inl ZeroDivisionError, [good_packet])"
    by blast
  have first: "collect_results [1000, 100, 10] 0 3
        [good_packet, zero_current_packet, good_packet] []
     = Some (Some ZeroDivisionError, [Result_row [1000, 5 / 2, 1]], [good_packet])"
    by (simp add: numeral_3_eq_3 g zr del: get_result.simps)
  have "collect_results [1000, 100, 10] 0 3 [good_packet, good_packet, good_packet] []
     = Some (None, [Result_row [1000, 5 / 2, 1], Result_row [1000, 5 / 2, 1],
                    Result_row [1000, 5 / 2, 1]], [])"
    by (simp add: numeral_3_eq_3 g del: get_result.simps)
  with first show ?thesis by simp
qed

section \<open>The experiment directory\<close>

text \<open>
  Claim C9 at a name with an underscore. The directories \<open>my_exp\<close> and \<open>my_exp_1\<close>
  exist. The second turn of the loop rebuilds the name from the part before the first
  underscore, and the directory used is \<open>my_2\<close>, not \<open>my_exp_2\<close>. For the name \<open>exp\<close>
  in the same situation the directory is \<open>exp_2\<close>.
\<close>

theorem start_button_func_underscore_name:
  "start_button_func 5 [''my_exp'', ''my_exp_1''] ''my_exp'' = Some ''my_2''
   \<and> start_button_func 5 [''exp'', ''exp_1''] ''exp'' = Some ''exp_2''"
  by code_simp

end
